theory Spec2Isabelle
  imports Complex_Main "HOL-Library.Word"
begin

section \<open>TensorRT inference engine wrapper and YOLO detection module\<close>

text \<open>
  A shallow embedding of \<^verbatim>\<open>TrtInferenceEngine\<close> (implementation and header) and of the
  \<^verbatim>\<open>TRT::YOLO\<close> module built on it. The CUDA runtime and the TensorRT engine are
  collaborators outside the repository: their calls are recorded as events, and what they
  answer (the address or the failure of each \<^verbatim>\<open>cudaMalloc\<close>, the contents of
  the output tensors after \<^verbatim>\<open>executeV2\<close>) is an input of the model.
  Member names lose their trailing underscore (\<^verbatim>\<open>num_inputs_\<close> is \<open>num_inputs\<close>);
  \<^verbatim>\<open>context_\<close> is \<open>context_ptr\<close>, whether the execution context exists.
\<close>

subsection \<open>Values, errors and the CUDA runtime\<close>

text \<open>\<^verbatim>\<open>size_t\<close> is a 64-bit unsigned integer: multiplication wraps.\<close>

type_synonym size_t = "64 word"

text \<open>A \<^verbatim>\<open>void*\<close>, host or device.\<close>

datatype ptr = nullptr | Addr nat

text \<open>
  Every way a call can end without returning: the \<^verbatim>\<open>std::runtime_error\<close>s the code
  throws, and the undefined behaviour of the unchecked accesses it makes
  (\<^verbatim>\<open>operator[]\<close> beyond \<^verbatim>\<open>size()\<close>, dereferencing a null pointer), and the
  \<^verbatim>\<open>std::length_error\<close> of a vector constructed with a negative count.
\<close>

datatype error =
    Engine_not_initialized
  | Invalid_dimension_value nat nat
  | No_dimensions_detected string
  | Invalid_dimension string nat int
  | Out_of_bounds
  | Null_pointer
  | Length_error

datatype cuda_event =
    CudaMalloc size_t "nat option"
  | CudaFree ptr
  | MemcpyHostToDevice ptr ptr size_t
  | MemcpyDeviceToHost ptr ptr size_t
  | ExecuteV2 "ptr list"

text \<open>
  The runtime as the engine sees it: \<open>malloc_outcomes\<close> holds what the coming
  \<^verbatim>\<open>cudaMalloc\<close> calls answer, first call first (\<open>Some a\<close> is \<^verbatim>\<open>cudaSuccess\<close>
  with device address \<open>a\<close>, \<open>None\<close> is a failure; an exhausted list fails), and
  \<open>events\<close> is the trace of the runtime calls made so far, oldest first.
\<close>

record cuda =
  malloc_outcomes :: "nat option list"
  events :: "cuda_event list"

definition cudaMalloc :: "cuda \<Rightarrow> size_t \<Rightarrow> nat option \<times> cuda" where
  "cudaMalloc cu sz =
     (case malloc_outcomes cu of
        [] \<Rightarrow> (None, cu\<lparr>events := events cu @ [CudaMalloc sz None]\<rparr>)
      | r # rs \<Rightarrow> (r, cu\<lparr>malloc_outcomes := rs, events := events cu @ [CudaMalloc sz r]\<rparr>))"

definition cudaFree :: "cuda \<Rightarrow> ptr \<Rightarrow> cuda" where
  "cudaFree cu p = cu\<lparr>events := events cu @ [CudaFree p]\<rparr>"

definition cudaMemcpy_h2d :: "cuda \<Rightarrow> ptr \<Rightarrow> ptr \<Rightarrow> size_t \<Rightarrow> cuda" where
  "cudaMemcpy_h2d cu dst src n = cu\<lparr>events := events cu @ [MemcpyHostToDevice dst src n]\<rparr>"

definition cudaMemcpy_d2h :: "cuda \<Rightarrow> ptr \<Rightarrow> ptr \<Rightarrow> size_t \<Rightarrow> cuda" where
  "cudaMemcpy_d2h cu dst src n = cu\<lparr>events := events cu @ [MemcpyDeviceToHost dst src n]\<rparr>"

definition executeV2 :: "cuda \<Rightarrow> ptr list \<Rightarrow> cuda" where
  "executeV2 cu bs = cu\<lparr>events := events cu @ [ExecuteV2 bs]\<rparr>"

subsection \<open>The loaded model and the engine object\<close>

text \<open>
  One entry of the model's binding table, as \<^verbatim>\<open>getBindingName\<close>,
  \<^verbatim>\<open>getBindingDimensions\<close> and \<^verbatim>\<open>bindingIsInput\<close> answer for it. The name
  may be a null pointer. The dimensions are the entries \<^verbatim>\<open>d[0] .. d[nbDims-1]\<close> of
  the \<^verbatim>\<open>nvinfer1::Dims\<close>, each a 32-bit \<^verbatim>\<open>int\<close>.
\<close>

record binding =
  binding_name :: "string option"
  binding_dims :: "int list"
  binding_is_input :: bool

record TrtInferenceEngine =
  engine :: "binding list option"
  context_ptr :: bool
  num_inputs :: int
  num_outputs :: int
  input_dims :: "int list list"
  output_dims :: "int list list"
  input_shapes :: "int list list"
  output_shapes :: "int list list"
  input_names :: "string list"
  output_names :: "string list"
  input_cuda_buffers :: "ptr list"
  output_cuda_buffers :: "ptr list"
  bindings :: "ptr list"
  trt_input_element_counts :: "size_t list"
  trt_output_element_counts :: "size_t list"

text \<open>
  The object as the constructor finds it: every vector and smart pointer empty, the two
  \<^verbatim>\<open>int\<close> members not initialised (any values \<open>n0\<close>, \<open>m0\<close>).
\<close>

definition new_engine :: "int \<Rightarrow> int \<Rightarrow> TrtInferenceEngine" where
  "new_engine n0 m0 =
     \<lparr>engine = None, context_ptr = False, num_inputs = n0, num_outputs = m0,
      input_dims = [], output_dims = [], input_shapes = [], output_shapes = [],
      input_names = [], output_names = [],
      input_cuda_buffers = [], output_cuda_buffers = [], bindings = [],
      trt_input_element_counts = [], trt_output_element_counts = []\<rparr>"

text \<open>
  \<^verbatim>\<open>load_engine\<close>: the file's bytes are deserialised by the runtime; \<open>model\<close> is
  what \<^verbatim>\<open>deserializeCudaEngine\<close> answers, \<open>None\<close> for a null pointer, on which
  \<^verbatim>\<open>createExecutionContext\<close> is then called.
\<close>

definition load_engine ::
  "binding list option \<Rightarrow> TrtInferenceEngine \<Rightarrow> error + TrtInferenceEngine" where
  "load_engine model st =
     (case model of
        None \<Rightarrow> Inl Null_pointer
      | Some bs \<Rightarrow> Inr (st\<lparr>engine := Some bs, context_ptr := True\<rparr>))"

subsection \<open>calculate\_model\_parameters\<close>

text \<open>The index of the first dimension that is not positive, counting from \<open>j\<close>.\<close>

fun find_invalid_dim :: "int list \<Rightarrow> nat \<Rightarrow> nat option" where
  "find_invalid_dim [] j = None"
| "find_invalid_dim (d # ds) j = (if d \<le> 0 then Some j else find_invalid_dim ds (Suc j))"

text \<open>
  The loop over all bindings, \<open>i\<close> the index of the head of the list: the dimensions
  are validated (a throw), then the binding is appended to the vectors of its role;
  \<^verbatim>\<open>std::string(name)\<close> of a null name is undefined.
\<close>

fun process_bindings ::
  "nat \<Rightarrow> binding list \<Rightarrow> TrtInferenceEngine \<Rightarrow> error + TrtInferenceEngine" where
  "process_bindings i [] st = Inr st"
| "process_bindings i (b # bs) st =
     (case find_invalid_dim (binding_dims b) 0 of
        Some j \<Rightarrow> Inl (Invalid_dimension_value i j)
      | None \<Rightarrow>
          (case binding_name b of
             None \<Rightarrow> Inl Null_pointer
           | Some nm \<Rightarrow>
               process_bindings (Suc i) bs
                 (if binding_is_input b
                  then st\<lparr>input_dims := input_dims st @ [binding_dims b],
                          input_names := input_names st @ [nm],
                          input_shapes := input_shapes st @ [binding_dims b]\<rparr>
                  else st\<lparr>output_dims := output_dims st @ [binding_dims b],
                          output_names := output_names st @ [nm],
                          output_shapes := output_shapes st @ [binding_dims b]\<rparr>)))"

text \<open>
  The product loop of \<^verbatim>\<open>validate_and_calculate_elements\<close>: \<open>elements *= dims.d[j]\<close>
  in \<^verbatim>\<open>size_t\<close>, the \<^verbatim>\<open>int\<close> converted.
\<close>

fun multiply_dims :: "string \<Rightarrow> int list \<Rightarrow> nat \<Rightarrow> size_t \<Rightarrow> error + size_t" where
  "multiply_dims nm [] j elements = Inr elements"
| "multiply_dims nm (d # ds) j elements =
     (if d \<le> 0 then Inl (Invalid_dimension nm j d)
      else multiply_dims nm ds (Suc j) (elements * word_of_int d))"

definition validate_and_calculate_elements :: "int list \<Rightarrow> string \<Rightarrow> error + size_t" where
  "validate_and_calculate_elements dims nm =
     (if length dims = 0 then Inl (No_dimensions_detected nm)
      else multiply_dims nm dims 0 1)"

text \<open>The range-for loops that push one element count per stored \<^verbatim>\<open>Dims\<close>.\<close>

fun calculate_element_counts ::
  "int list list \<Rightarrow> string \<Rightarrow> size_t list \<Rightarrow> error + size_t list" where
  "calculate_element_counts [] nm counts = Inr counts"
| "calculate_element_counts (dims # rest) nm counts =
     (case validate_and_calculate_elements dims nm of
        Inl e \<Rightarrow> Inl e
      | Inr n \<Rightarrow> calculate_element_counts rest nm (counts @ [n]))"

text \<open>
  \<^verbatim>\<open>calculate_model_parameters\<close>. The six vectors are cleared (the two shape vectors
  are not), the counts are assigned from the sizes of the vectors just cleared, then
  the bindings are processed and the element counts computed. The summary loops at the
  end print element count \<open>i\<close> for every \<open>i\<close> below \<open>num_inputs\<close> and
  \<open>num_outputs\<close>, read with an unchecked \<^verbatim>\<open>operator[]\<close>.
\<close>

definition calculate_model_parameters :: "TrtInferenceEngine \<Rightarrow> error + TrtInferenceEngine" where
  "calculate_model_parameters st =
     (case engine st of
        None \<Rightarrow> Inl Engine_not_initialized
      | Some bs \<Rightarrow>
          (let st1 = st\<lparr>input_dims := [], output_dims := [],
                        input_names := [], output_names := [],
                        trt_input_element_counts := [], trt_output_element_counts := []\<rparr>;
               st2 = st1\<lparr>num_inputs := int (length (input_dims st1)),
                         num_outputs := int (length (output_dims st1))\<rparr>
           in case process_bindings 0 bs st2 of
                Inl e \<Rightarrow> Inl e
              | Inr st3 \<Rightarrow>
                  (case calculate_element_counts (input_dims st3) ''input''
                          (trt_input_element_counts st3) of
                     Inl e \<Rightarrow> Inl e
                   | Inr ic \<Rightarrow>
                       (case calculate_element_counts (output_dims st3) ''output''
                               (trt_output_element_counts st3) of
                          Inl e \<Rightarrow> Inl e
                        | Inr oc \<Rightarrow>
                            if nat (num_inputs st3) \<le> length ic \<and> nat (num_outputs st3) \<le> length oc
                            then Inr (st3\<lparr>trt_input_element_counts := ic,
                                          trt_output_element_counts := oc\<rparr>)
                            else Inl Out_of_bounds))))"

subsection \<open>Introspection queries\<close>

definition get_num_inputs :: "TrtInferenceEngine \<Rightarrow> int" where
  "get_num_inputs st = num_inputs st"

definition get_num_outputs :: "TrtInferenceEngine \<Rightarrow> int" where
  "get_num_outputs st = num_outputs st"

definition get_input_shapes :: "TrtInferenceEngine \<Rightarrow> int list list" where
  "get_input_shapes st = input_shapes st"

definition get_output_shapes :: "TrtInferenceEngine \<Rightarrow> int list list" where
  "get_output_shapes st = output_shapes st"

definition get_input_elements :: "TrtInferenceEngine \<Rightarrow> size_t list" where
  "get_input_elements st = trt_input_element_counts st"

definition get_output_elements :: "TrtInferenceEngine \<Rightarrow> size_t list" where
  "get_output_elements st = trt_output_element_counts st"

text \<open>
  The byte sizes: a vector of \<open>count\<close> entries is built (a negative \<^verbatim>\<open>int\<close>
  converts to a length no vector can have), and entry \<open>i\<close> is element count \<open>i\<close>
  times the element size, read with an unchecked \<^verbatim>\<open>operator[]\<close>.
\<close>

definition size_bytes :: "int \<Rightarrow> size_t list \<Rightarrow> size_t \<Rightarrow> error + size_t list" where
  "size_bytes count element_counts element_size =
     (if count < 0 then Inl Length_error
      else if length element_counts < nat count then Inl Out_of_bounds
      else Inr (map (\<lambda>c. c * element_size) (take (nat count) element_counts)))"

definition sizeof_float :: size_t where
  "sizeof_float = 4"

definition get_input_size_bytes :: "TrtInferenceEngine \<Rightarrow> size_t \<Rightarrow> error + size_t list" where
  "get_input_size_bytes st element_size =
     size_bytes (num_inputs st) (trt_input_element_counts st) element_size"

definition get_output_size_bytes :: "TrtInferenceEngine \<Rightarrow> size_t \<Rightarrow> error + size_t list" where
  "get_output_size_bytes st element_size =
     size_bytes (num_outputs st) (trt_output_element_counts st) element_size"

subsection \<open>Device buffers\<close>

text \<open>\<^verbatim>\<open>std::vector::resize\<close>: new entries are null pointers.\<close>

definition resize :: "ptr list \<Rightarrow> nat \<Rightarrow> ptr list" where
  "resize xs n = take n xs @ replicate (n - length xs) nullptr"

text \<open>
  One allocation loop of \<^verbatim>\<open>allocate_buffers\<close>: \<open>cudaMalloc(&bufs[i], sizes[i])\<close> for
  the sizes in turn, \<open>i\<close> the index of the head of the list. A failed call leaves
  \<open>bufs[i]\<close> as it was and ends the loop: the result names the failing index.
\<close>

fun allocate_loop ::
  "size_t list \<Rightarrow> nat \<Rightarrow> ptr list \<Rightarrow> cuda \<Rightarrow> nat option \<times> ptr list \<times> cuda" where
  "allocate_loop [] i bufs cu = (None, bufs, cu)"
| "allocate_loop (sz # szs) i bufs cu =
     (case cudaMalloc cu sz of
        (None, cu') \<Rightarrow> (Some i, bufs, cu')
      | (Some a, cu') \<Rightarrow> allocate_loop szs (Suc i) (bufs[i := Addr a]) cu')"

text \<open>One loop of \<^verbatim>\<open>deallocate_buffers\<close>: every non-null buffer is freed.\<close>

fun free_loop :: "ptr list \<Rightarrow> cuda \<Rightarrow> cuda" where
  "free_loop [] cu = cu"
| "free_loop (buf # bufs) cu =
     free_loop bufs (if buf \<noteq> nullptr then cudaFree cu buf else cu)"

definition deallocate_buffers :: "TrtInferenceEngine \<Rightarrow> cuda \<Rightarrow> TrtInferenceEngine \<times> cuda" where
  "deallocate_buffers st cu =
     (let cu1 = free_loop (input_cuda_buffers st) cu;
          st1 = st\<lparr>input_cuda_buffers := []\<rparr>;
          cu2 = free_loop (output_cuda_buffers st1) cu1;
          st2 = st1\<lparr>output_cuda_buffers := []\<rparr>
      in (st2\<lparr>bindings := []\<rparr>, cu2))"

text \<open>
  \<^verbatim>\<open>allocate_buffers\<close> returns nothing; the report is the line it prints, the first
  four to \<^verbatim>\<open>std::cerr\<close>. Here and below, a test \<^verbatim>\<open>a != b || c != d\<close> is written
  as it is evaluated: the first operand, then the second.
\<close>

datatype allocate_report =
    Already_allocated
  | Invalid_io_counts
  | Input_allocation_failed nat
  | Output_allocation_failed nat
  | Successfully_allocated

definition allocate_buffers ::
  "TrtInferenceEngine \<Rightarrow> cuda \<Rightarrow> error + (allocate_report \<times> TrtInferenceEngine \<times> cuda)" where
  "allocate_buffers st cu =
     (if input_cuda_buffers st \<noteq> [] then Inr (Already_allocated, st, cu)
      else if output_cuda_buffers st \<noteq> [] then Inr (Already_allocated, st, cu)
      else if num_inputs st < 1 \<or> num_outputs st < 1
      then Inr (Invalid_io_counts, st, cu)
      else
        (case get_input_size_bytes st sizeof_float of
           Inl e \<Rightarrow> Inl e
         | Inr in_sizes \<Rightarrow>
        (case get_output_size_bytes st sizeof_float of
           Inl e \<Rightarrow> Inl e
         | Inr out_sizes \<Rightarrow>
        (let st1 = st\<lparr>input_cuda_buffers :=
                        resize (input_cuda_buffers st) (nat (num_inputs st))\<rparr>
         in case allocate_loop in_sizes 0 (input_cuda_buffers st1) cu of
              (Some i, bufs, cu1) \<Rightarrow>
                (case deallocate_buffers (st1\<lparr>input_cuda_buffers := bufs\<rparr>) cu1 of
                   (st', cu') \<Rightarrow> Inr (Input_allocation_failed i, st', cu'))
            | (None, bufs, cu1) \<Rightarrow>
        (let st2 = st1\<lparr>input_cuda_buffers := bufs\<rparr>;
             st3 = st2\<lparr>output_cuda_buffers :=
                        resize (output_cuda_buffers st2) (nat (num_outputs st2))\<rparr>
         in case allocate_loop out_sizes 0 (output_cuda_buffers st3) cu1 of
              (Some i, bufs', cu2) \<Rightarrow>
                (case deallocate_buffers (st3\<lparr>output_cuda_buffers := bufs'\<rparr>) cu2 of
                   (st', cu') \<Rightarrow> Inr (Output_allocation_failed i, st', cu'))
            | (None, bufs', cu2) \<Rightarrow>
                (let st4 = st3\<lparr>output_cuda_buffers := bufs'\<rparr>
                 in Inr (Successfully_allocated,
                         st4\<lparr>bindings := input_cuda_buffers st4 @ output_cuda_buffers st4\<rparr>,
                         cu2)))))))"

text \<open>
  The constructor: \<^verbatim>\<open>load_engine\<close>, \<^verbatim>\<open>calculate_model_parameters\<close>,
  \<^verbatim>\<open>allocate_buffers\<close>, on a new object.
\<close>

definition construct ::
  "binding list option \<Rightarrow> int \<Rightarrow> int \<Rightarrow> cuda \<Rightarrow>
     error + (allocate_report \<times> TrtInferenceEngine \<times> cuda)" where
  "construct model n0 m0 cu =
     (case load_engine model (new_engine n0 m0) of
        Inl e \<Rightarrow> Inl e
      | Inr st1 \<Rightarrow>
          (case calculate_model_parameters st1 of
             Inl e \<Rightarrow> Inl e
           | Inr st2 \<Rightarrow> allocate_buffers st2 cu))"

text \<open>The destructor: \<^verbatim>\<open>deallocate_buffers\<close>, then \<^verbatim>\<open>shutdown_engine\<close>.\<close>

definition shutdown_engine :: "TrtInferenceEngine \<Rightarrow> TrtInferenceEngine" where
  "shutdown_engine st = st\<lparr>context_ptr := False, engine := None\<rparr>"

definition destruct :: "TrtInferenceEngine \<Rightarrow> cuda \<Rightarrow> cuda" where
  "destruct st cu = snd (deallocate_buffers st cu)"

subsection \<open>Inference\<close>

text \<open>
  The copy loops of \<^verbatim>\<open>infer_b\<close>, one step per device buffer: entry \<open>i\<close> of the
  device buffers is paired with \<open>buf[i]\<close> and \<open>size_param[i]\<close> of the caller, read
  with an unchecked \<^verbatim>\<open>operator[]\<close>.
\<close>

fun copy_inputs :: "ptr list \<Rightarrow> ptr list \<Rightarrow> size_t list \<Rightarrow> cuda \<Rightarrow> error + cuda" where
  "copy_inputs [] input_buf size_in_param cu = Inr cu"
| "copy_inputs (d # ds) (h # hs) (n # ns) cu = copy_inputs ds hs ns (cudaMemcpy_h2d cu d h n)"
| "copy_inputs (d # ds) input_buf size_in_param cu = Inl Out_of_bounds"

fun copy_outputs :: "ptr list \<Rightarrow> ptr list \<Rightarrow> size_t list \<Rightarrow> cuda \<Rightarrow> error + cuda" where
  "copy_outputs [] output_buf size_out_param cu = Inr cu"
| "copy_outputs (d # ds) (h # hs) (n # ns) cu = copy_outputs ds hs ns (cudaMemcpy_d2h cu h d n)"
| "copy_outputs (d # ds) output_buf size_out_param cu = Inl Out_of_bounds"

text \<open>
  \<^verbatim>\<open>infer_b\<close>. The identifiers \<^verbatim>\<open>input_size\<close> and \<^verbatim>\<open>output_size\<close> of its first test
  are declared nowhere in the repository: they are parameters here, of the type they are
  compared with. Both byte-size queries are evaluated on every path through the test
  (the second by the test itself or by the report). The result is the returned flag and
  the runtime after the call.
\<close>

definition infer_b ::
  "TrtInferenceEngine \<Rightarrow> cuda \<Rightarrow> size_t list \<Rightarrow> size_t list \<Rightarrow>
     ptr list \<Rightarrow> size_t list \<Rightarrow> ptr list \<Rightarrow> size_t list \<Rightarrow> error + (bool \<times> cuda)" where
  "infer_b st cu input_size output_size input_buf size_in_param output_buf size_out_param =
     (case get_input_size_bytes st sizeof_float of
        Inl e \<Rightarrow> Inl e
      | Inr expected_in \<Rightarrow>
     (case get_output_size_bytes st sizeof_float of
        Inl e \<Rightarrow> Inl e
      | Inr expected_out \<Rightarrow>
          if input_size \<noteq> expected_in then Inr (False, cu)
          else if output_size \<noteq> expected_out then Inr (False, cu)
          else if length input_buf \<noteq> length (input_cuda_buffers st) then Inr (False, cu)
          else if length output_buf \<noteq> length (output_cuda_buffers st) then Inr (False, cu)
          else
            (case copy_inputs (input_cuda_buffers st) input_buf size_in_param cu of
               Inl e \<Rightarrow> Inl e
             | Inr cu1 \<Rightarrow>
                 if \<not> context_ptr st then Inl Null_pointer
                 else
                   (case copy_outputs (output_cuda_buffers st) output_buf size_out_param
                           (executeV2 cu1 (bindings st)) of
                      Inl e \<Rightarrow> Inl e
                    | Inr cu2 \<Rightarrow> Inr (True, cu2)))))"

text \<open>
  The validation loops of \<^verbatim>\<open>validate_buffers\<close>: every index is visited, a null
  buffer or a size other than the expected one clears the flag.
\<close>

fun validate_loop :: "ptr list \<Rightarrow> size_t list \<Rightarrow> size_t list \<Rightarrow> bool \<Rightarrow> error + bool" where
  "validate_loop [] sizes expected valid = Inr valid"
| "validate_loop (b # bs) (s # ss) (e # es) valid =
     validate_loop bs ss es (valid \<and> b \<noteq> nullptr \<and> s = e)"
| "validate_loop (b # bs) sizes expected valid = Inl Out_of_bounds"

definition validate_buffers ::
  "TrtInferenceEngine \<Rightarrow> ptr list \<Rightarrow> size_t list \<Rightarrow> ptr list \<Rightarrow> size_t list \<Rightarrow> error + bool" where
  "validate_buffers st input_bufs in_sizes output_bufs out_sizes =
     (if int (length input_bufs) \<noteq> num_inputs st then Inr False
      else if int (length output_bufs) \<noteq> num_outputs st then Inr False
      else
        (case get_input_size_bytes st sizeof_float of
           Inl e \<Rightarrow> Inl e
         | Inr expected_input_sizes \<Rightarrow>
        (case get_output_size_bytes st sizeof_float of
           Inl e \<Rightarrow> Inl e
         | Inr expected_output_sizes \<Rightarrow>
        (case validate_loop input_bufs in_sizes expected_input_sizes True of
           Inl e \<Rightarrow> Inl e
         | Inr valid \<Rightarrow> validate_loop output_bufs out_sizes expected_output_sizes valid))))"

text \<open>The asynchronous pair: \<^verbatim>\<open>return false\<close>, converted to the declared result type.\<close>

definition infer_async :: "TrtInferenceEngine \<Rightarrow> ptr list \<Rightarrow> size_t list \<Rightarrow> bool" where
  "infer_async st input_buf size_in_param = False"

definition retrieve_infer_result_async ::
  "TrtInferenceEngine \<Rightarrow> ptr list \<Rightarrow> size_t list \<Rightarrow> size_t" where
  "retrieve_infer_result_async st output_buf size_out_param = of_bool False"

subsection \<open>The YOLO module: constants and records\<close>

definition MODEL_NUM_INPUTS :: int where
  "MODEL_NUM_INPUTS = 1"

definition MODEL_NUM_OUTPUTS :: int where
  "MODEL_NUM_OUTPUTS = 4"

definition OUTPUT_INDEX_NUM_DETS :: nat where
  "OUTPUT_INDEX_NUM_DETS = 0"

definition OUTPUT_INDEX_BBOXES :: nat where
  "OUTPUT_INDEX_BBOXES = 1"

definition OUTPUT_INDEX_SCORES :: nat where
  "OUTPUT_INDEX_SCORES = 2"

definition OUTPUT_INDEX_LABELS :: nat where
  "OUTPUT_INDEX_LABELS = 3"

text \<open>
  A \<^verbatim>\<open>float\<close> is modelled by the rational number it stands for: comparison is the
  order of the rationals. Its conversion to \<^verbatim>\<open>int\<close> discards the fractional part,
  the conversion of an \<^verbatim>\<open>int\<close> back is \<open>of_int\<close>.
\<close>

definition float_to_int :: "rat \<Rightarrow> int" where
  "float_to_int f = (if 0 \<le> f then \<lfloor>f\<rfloor> else \<lceil>f\<rceil>)"

text \<open>\<^verbatim>\<open>constexpr int CONFIDENCE_SCORE_THRESHOLD = 0.25f;\<close>\<close>

definition CONFIDENCE_SCORE_THRESHOLD :: int where
  "CONFIDENCE_SCORE_THRESHOLD = float_to_int (25 / 100)"

text \<open>
  The fields \<^verbatim>\<open>x\<close>, \<^verbatim>\<open>y\<close>, \<^verbatim>\<open>width\<close>, \<^verbatim>\<open>height\<close> of
  \<^verbatim>\<open>bounding_box_t\<close> carry the prefix \<open>box\<close>.
\<close>

record bounding_box =
  box_x :: rat
  box_y :: rat
  box_width :: rat
  box_height :: rat

record detected_object_info =
  rect :: bounding_box
  class_id :: int
  confidence :: rat

text \<open>
  The static variables of the namespace that the two functions below use
  (\<^verbatim>\<open>engine\<close> is \<open>yolo_engine\<close>; the static name vectors are written by
  \<^verbatim>\<open>load_model\<close> alone).
\<close>

record yolo =
  initialized :: bool
  yolo_engine :: "TrtInferenceEngine option"
  input_sizes :: "size_t list"
  output_sizes :: "size_t list"
  input_data :: "ptr list"
  output_data :: "ptr list"

text \<open>
  What the four host buffers \<^verbatim>\<open>output_data[0..3]\<close> hold when \<^verbatim>\<open>infer_b\<close> has
  returned, each seen through the type the decoder casts its pointer to. The runtime
  decides these contents; a buffer that cannot be read is the empty array.
\<close>

record host_outputs =
  out_num_dets :: "int list"
  out_bboxes :: "rat list"
  out_scores :: "rat list"
  out_labels :: "int list"

subsection \<open>identify\_objects\<close>

text \<open>
  The first part of \<^verbatim>\<open>identify_objects\<close>, up to the test of the flag \<^verbatim>\<open>infer_b\<close>
  returns: \<open>None\<close> where the function returns \<open>-1\<close>, otherwise the runtime after
  the inference. \<open>input_size\<close> and \<open>output_size\<close> are the undeclared identifiers
  of \<^verbatim>\<open>infer_b\<close>. The image is \<open>length input_img\<close> floats.
\<close>

definition run_inference ::
  "yolo \<Rightarrow> cuda \<Rightarrow> size_t list \<Rightarrow> size_t list \<Rightarrow> rat list \<Rightarrow> error + cuda option" where
  "run_inference ys cu input_size output_size input_img =
     (case yolo_engine ys of
        None \<Rightarrow> Inr None
      | Some e \<Rightarrow>
          if \<not> initialized ys then Inr None
          else if get_num_inputs e \<noteq> MODEL_NUM_INPUTS then Inr None
          else if get_num_outputs e \<noteq> MODEL_NUM_OUTPUTS then Inr None
          else
            (case input_sizes ys of
               [] \<Rightarrow> Inl Out_of_bounds
             | s0 # _ \<Rightarrow>
                 if s0 \<noteq> word_of_nat (length input_img) * sizeof_float then Inr None
                 else
                   (case input_data ys of
                      [] \<Rightarrow> Inl Out_of_bounds
                    | p0 # _ \<Rightarrow>
                        if p0 = nullptr then Inl Null_pointer
                        else
                          (case infer_b e cu input_size output_size
                                  (input_data ys) (input_sizes ys)
                                  (output_data ys) (output_sizes ys) of
                             Inl err \<Rightarrow> Inl err
                           | Inr (success, cu') \<Rightarrow>
                               if \<not> success then Inr None else Inr (Some cu')))))"

text \<open>
  The decoding loop, over the detection indices in turn. All six reads of an iteration
  come before the test of the score; each is an unchecked read of a raw array. \<open>fsub\<close>
  is the subtraction of two \<^verbatim>\<open>float\<close>s.
\<close>

fun decode_loop ::
  "(rat \<Rightarrow> rat \<Rightarrow> rat) \<Rightarrow> host_outputs \<Rightarrow> nat list \<Rightarrow>
     detected_object_info list \<Rightarrow> error + detected_object_info list" where
  "decode_loop fsub outs [] results_detections = Inr results_detections"
| "decode_loop fsub outs (i # rest) results_detections =
     (if i * 4 + 3 < length (out_bboxes outs) \<and> i < length (out_scores outs)
         \<and> i < length (out_labels outs)
      then
        (let x1 = out_bboxes outs ! (i * 4 + 0);
             y1 = out_bboxes outs ! (i * 4 + 1);
             x2 = out_bboxes outs ! (i * 4 + 2);
             y2 = out_bboxes outs ! (i * 4 + 3);
             score = out_scores outs ! i;
             label = out_labels outs ! i
         in if score < of_int CONFIDENCE_SCORE_THRESHOLD
            then decode_loop fsub outs rest results_detections
            else decode_loop fsub outs rest
                   (results_detections @
                      [\<lparr>rect = \<lparr>box_x = x1, box_y = y1,
                                box_width = fsub x2 x1, box_height = fsub y2 y1\<rparr>,
                        class_id = label, confidence = score\<rparr>]))
      else Inl Out_of_bounds)"

text \<open>
  The second part of \<^verbatim>\<open>identify_objects\<close>, from \<^verbatim>\<open>results_buffer.clear()\<close> on.
  \<^verbatim>\<open>results_buffer\<close> is declared nowhere in the repository: it is a parameter here,
  a container of its own that the function clears and whose size it returns; the
  records are pushed to \<^verbatim>\<open>results_detections\<close>. The result is the returned
  \<^verbatim>\<open>int\<close>, \<^verbatim>\<open>results_detections\<close> and \<^verbatim>\<open>results_buffer\<close>.
\<close>

definition post_process ::
  "(rat \<Rightarrow> rat \<Rightarrow> rat) \<Rightarrow> yolo \<Rightarrow> host_outputs \<Rightarrow> detected_object_info list \<Rightarrow> 'b list \<Rightarrow>
     error + (int \<times> detected_object_info list \<times> 'b list)" where
  "post_process fsub ys outs results_detections results_buffer =
     (let results_buffer1 = [] :: 'b list
      in if length (output_data ys) \<le> OUTPUT_INDEX_LABELS then Inl Out_of_bounds
         else
           (case out_num_dets outs of
              [] \<Rightarrow> Inl Out_of_bounds
            | num_dets # _ \<Rightarrow>
                if num_dets < 0 \<or> num_dets > 100
                then Inr (-1, results_detections, results_buffer1)
                else
                  (case decode_loop fsub outs [0..<nat num_dets] results_detections of
                     Inl e \<Rightarrow> Inl e
                   | Inr dets \<Rightarrow> Inr (int (length results_buffer1), dets, results_buffer1))))"

definition identify_objects ::
  "(rat \<Rightarrow> rat \<Rightarrow> rat) \<Rightarrow> yolo \<Rightarrow> cuda \<Rightarrow> size_t list \<Rightarrow> size_t list \<Rightarrow> host_outputs \<Rightarrow>
     rat list \<Rightarrow> detected_object_info list \<Rightarrow> 'b list \<Rightarrow>
     error + (int \<times> detected_object_info list \<times> 'b list \<times> cuda)" where
  "identify_objects fsub ys cu input_size output_size outs
       input_img results_detections results_buffer =
     (case run_inference ys cu input_size output_size input_img of
        Inl e \<Rightarrow> Inl e
      | Inr None \<Rightarrow> Inr (-1, results_detections, results_buffer, cu)
      | Inr (Some cu') \<Rightarrow>
          (case post_process fsub ys outs results_detections results_buffer of
             Inl e \<Rightarrow> Inl e
           | Inr (n, dets, buf) \<Rightarrow> Inr (n, dets, buf, cu')))"

subsection \<open>unload\_model\<close>

text \<open>
  A loop \<^verbatim>\<open>for (i = 0; i < N; i++) free(data[i])\<close> over the indices in turn;
  \<open>freed\<close> is the list of the pointers passed to \<^verbatim>\<open>free\<close> so far.
\<close>

fun free_indices :: "nat list \<Rightarrow> ptr list \<Rightarrow> ptr list \<Rightarrow> error + ptr list" where
  "free_indices [] data freed = Inr freed"
| "free_indices (i # rest) data freed =
     (if i < length data then free_indices rest data (freed @ [data ! i])
      else Inl Out_of_bounds)"

definition unload_model ::
  "yolo \<Rightarrow> cuda \<Rightarrow> ptr list \<Rightarrow> error + (yolo \<times> cuda \<times> ptr list)" where
  "unload_model ys cu freed =
     (let cu1 = (case yolo_engine ys of None \<Rightarrow> cu | Some e \<Rightarrow> destruct e cu);
          ys1 = ys\<lparr>yolo_engine := None\<rparr>
      in case free_indices [0..<nat MODEL_NUM_INPUTS] (input_data ys1) freed of
           Inl e \<Rightarrow> Inl e
         | Inr freed1 \<Rightarrow>
             (case free_indices [0..<nat MODEL_NUM_OUTPUTS] (output_data ys1) freed1 of
                Inl e \<Rightarrow> Inl e
              | Inr freed2 \<Rightarrow>
                  Inr (ys1\<lparr>input_data := [], output_data := [],
                           input_sizes := [], output_sizes := [],
                           initialized := False\<rparr>, cu1, freed2)))"

subsection \<open>Concrete models and sessions\<close>

text \<open>A model with one input and one output, both named and with positive dimensions.\<close>

definition images_binding :: binding where
  "images_binding =
     \<lparr>binding_name = Some ''images'', binding_dims = [1, 3, 640, 640], binding_is_input = True\<rparr>"

definition num_dets_binding :: binding where
  "num_dets_binding =
     \<lparr>binding_name = Some ''num_dets'', binding_dims = [1, 1], binding_is_input = False\<rparr>"

text \<open>A runtime that has not been called yet and will answer \<open>rs\<close> to \<^verbatim>\<open>cudaMalloc\<close>.\<close>

definition idle_cuda :: "nat option list \<Rightarrow> cuda" where
  "idle_cuda rs = \<lparr>malloc_outcomes = rs, events = []\<rparr>"

text \<open>
  The session the constructor is documented to build for a model with one input of 4
  floats and one output of 1 float: one device buffer per binding.
\<close>

definition small_session :: TrtInferenceEngine where
  "small_session =
     \<lparr>engine = Some [\<lparr>binding_name = Some ''in'', binding_dims = [1, 4], binding_is_input = True\<rparr>,
                     \<lparr>binding_name = Some ''out'', binding_dims = [1, 1], binding_is_input = False\<rparr>],
      context_ptr = True, num_inputs = 1, num_outputs = 1,
      input_dims = [[1, 4]], output_dims = [[1, 1]],
      input_shapes = [[1, 4]], output_shapes = [[1, 1]],
      input_names = [''in''], output_names = [''out''],
      input_cuda_buffers = [Addr 100], output_cuda_buffers = [Addr 200],
      bindings = [Addr 100, Addr 200],
      trt_input_element_counts = [4], trt_output_element_counts = [1]\<rparr>"

text \<open>
  A detector session: an engine with one input of 2 floats and the four output tensors
  of the decoder's schema (1, 400, 100 and 100 elements), and the module's host buffers.
\<close>

definition detector_engine :: TrtInferenceEngine where
  "detector_engine =
     \<lparr>engine = Some [\<lparr>binding_name = Some ''images'', binding_dims = [1, 2], binding_is_input = True\<rparr>,
                     \<lparr>binding_name = Some ''num_dets'', binding_dims = [1, 1], binding_is_input = False\<rparr>,
                     \<lparr>binding_name = Some ''bboxes'', binding_dims = [1, 100, 4], binding_is_input = False\<rparr>,
                     \<lparr>binding_name = Some ''scores'', binding_dims = [1, 100], binding_is_input = False\<rparr>,
                     \<lparr>binding_name = Some ''labels'', binding_dims = [1, 100], binding_is_input = False\<rparr>],
      context_ptr = True, num_inputs = 1, num_outputs = 4,
      input_dims = [[1, 2]], output_dims = [[1, 1], [1, 100, 4], [1, 100], [1, 100]],
      input_shapes = [[1, 2]], output_shapes = [[1, 1], [1, 100, 4], [1, 100], [1, 100]],
      input_names = [''images''], output_names = [''num_dets'', ''bboxes'', ''scores'', ''labels''],
      input_cuda_buffers = [Addr 100],
      output_cuda_buffers = [Addr 200, Addr 201, Addr 202, Addr 203],
      bindings = [Addr 100, Addr 200, Addr 201, Addr 202, Addr 203],
      trt_input_element_counts = [2], trt_output_element_counts = [1, 400, 100, 100]\<rparr>"

definition detector_session :: yolo where
  "detector_session =
     \<lparr>initialized = True, yolo_engine = Some detector_engine,
      input_sizes = [8], output_sizes = [4, 1600, 400, 400],
      input_data = [Addr 10], output_data = [Addr 20, Addr 21, Addr 22, Addr 23]\<rparr>"

text \<open>The runtime calls of one inference of the detector session.\<close>

definition detector_inference_events :: "cuda_event list" where
  "detector_inference_events =
     [MemcpyHostToDevice (Addr 100) (Addr 10) 8,
      ExecuteV2 [Addr 100, Addr 200, Addr 201, Addr 202, Addr 203],
      MemcpyDeviceToHost (Addr 20) (Addr 200) 4,
      MemcpyDeviceToHost (Addr 21) (Addr 201) 1600,
      MemcpyDeviceToHost (Addr 22) (Addr 202) 400,
      MemcpyDeviceToHost (Addr 23) (Addr 203) 400]"

text \<open>
  Output buffers of the schema's sizes: the count, then the boxes, scores and labels of
  the first detections, the rest of each tensor zero.
\<close>

definition detector_outputs ::
  "int \<Rightarrow> rat list \<Rightarrow> rat list \<Rightarrow> int list \<Rightarrow> host_outputs" where
  "detector_outputs n boxes scores labels =
     \<lparr>out_num_dets = [n],
      out_bboxes = boxes @ replicate (400 - length boxes) 0,
      out_scores = scores @ replicate (100 - length scores) 0,
      out_labels = labels @ replicate (100 - length labels) 0\<rparr>"

text \<open>The module after \<^verbatim>\<open>unload_model\<close> has returned.\<close>

definition unloaded :: yolo where
  "unloaded =
     \<lparr>initialized = False, yolo_engine = None, input_sizes = [], output_sizes = [],
      input_data = [], output_data = []\<rparr>"

definition small_unallocated :: TrtInferenceEngine where
  "small_unallocated =
     small_session\<lparr>input_cuda_buffers := [], output_cuda_buffers := [], bindings := []\<rparr>"

subsection \<open>Reading traces and states\<close>

text \<open>
  What a trace of runtime calls says: the device addresses its successful
  \<^verbatim>\<open>cudaMalloc\<close> calls returned, the pointers passed to \<^verbatim>\<open>cudaFree\<close>, both in
  call order, and whether a \<^verbatim>\<open>cudaMalloc\<close> failed. \<open>new_events cu cu'\<close> is what a call
  that took the runtime from \<open>cu\<close> to \<open>cu'\<close> added to the trace.
\<close>

fun allocated :: "cuda_event list \<Rightarrow> ptr list" where
  "allocated [] = []"
| "allocated (CudaMalloc sz (Some a) # evs) = Addr a # allocated evs"
| "allocated (ev # evs) = allocated evs"

fun freed_buffers :: "cuda_event list \<Rightarrow> ptr list" where
  "freed_buffers [] = []"
| "freed_buffers (CudaFree p # evs) = p # freed_buffers evs"
| "freed_buffers (ev # evs) = freed_buffers evs"

fun malloc_failed :: "cuda_event list \<Rightarrow> bool" where
  "malloc_failed [] = False"
| "malloc_failed (CudaMalloc sz None # evs) = True"
| "malloc_failed (ev # evs) = malloc_failed evs"

definition new_events :: "cuda \<Rightarrow> cuda \<Rightarrow> cuda_event list" where
  "new_events cu cu' = drop (length (events cu)) (events cu')"

text \<open>
  The two states of the buffer set that the specification allows. Empty: no input
  buffer, no output buffer, no entry in the binding table. Complete: one non-null buffer
  for each of the \<open>num_inputs\<close> inputs and \<open>num_outputs\<close> outputs, and the binding
  table the input buffers followed by the output buffers.
\<close>

definition buffers_empty :: "TrtInferenceEngine \<Rightarrow> bool" where
  "buffers_empty st =
     (input_cuda_buffers st = [] \<and> output_cuda_buffers st = [] \<and> bindings st = [])"

definition buffers_complete :: "TrtInferenceEngine \<Rightarrow> bool" where
  "buffers_complete st =
     (1 \<le> num_inputs st \<and> 1 \<le> num_outputs st
      \<and> length (input_cuda_buffers st) = nat (num_inputs st)
      \<and> length (output_cuda_buffers st) = nat (num_outputs st)
      \<and> nullptr \<notin> set (input_cuda_buffers st) \<and> nullptr \<notin> set (output_cuda_buffers st)
      \<and> bindings st = input_cuda_buffers st @ output_cuda_buffers st)"

text \<open>
  The Detection Record of the specification for detection \<open>i\<close>: with
  \<open>[x1, y1, x2, y2]\<close> the four entries of slot \<open>i\<close> of the boxes tensor, the box is
  x = x1, y = y1, width = x2 - x1, height = y2 - y1; the class id is label \<open>i\<close> and the
  confidence is score \<open>i\<close>.
\<close>

definition spec_detection_record ::
  "(rat \<Rightarrow> rat \<Rightarrow> rat) \<Rightarrow> host_outputs \<Rightarrow> nat \<Rightarrow> detected_object_info" where
  "spec_detection_record fsub outs i =
     \<lparr>rect = \<lparr>box_x = out_bboxes outs ! (4 * i),
              box_y = out_bboxes outs ! (4 * i + 1),
              box_width = fsub (out_bboxes outs ! (4 * i + 2)) (out_bboxes outs ! (4 * i)),
              box_height = fsub (out_bboxes outs ! (4 * i + 3)) (out_bboxes outs ! (4 * i + 1))\<rparr>,
      class_id = out_labels outs ! i,
      confidence = out_scores outs ! i\<rparr>"

section \<open>Properties\<close>

subsection \<open>Asynchronous stubs\<close>

text \<open>
  Claim C9. For every engine and every argument, \<open>infer_async\<close> returns false and
  \<open>retrieve_infer_result_async\<close> returns 0: neither ever reports success.
\<close>

theorem async_stubs_report_failure:
  "infer_async st input_buf size_in_param = False
   \<and> retrieve_infer_result_async st output_buf size_out_param = 0"
  by (simp add: infer_async_def retrieve_infer_result_async_def)

subsection \<open>Session construction\<close>

text \<open>
  Claim C1 asks that after construction \<open>get_num_inputs\<close> and \<open>get_num_outputs\<close>
  return the numbers N and M of input and output bindings. Evaluated on a model with
  N = 1 and M = 1, whatever the two counts held before: the shapes are the model's, but
  both counts are 0, taken from the vectors before the bindings were read, and
  \<open>allocate_buffers\<close> then rejects the counts and allocates nothing.
\<close>

theorem construct_counts_are_zero:
  "case construct (Some [images_binding, num_dets_binding]) n0 m0 (idle_cuda [Some 1, Some 2]) of
     Inl e \<Rightarrow> False
   | Inr (r, st, cu) \<Rightarrow>
       get_num_inputs st = 0 \<and> get_num_outputs st = 0
       \<and> get_input_shapes st = [[1, 3, 640, 640]] \<and> get_output_shapes st = [[1, 1]]
       \<and> r = Invalid_io_counts
       \<and> input_cuda_buffers st = [] \<and> output_cuda_buffers st = [] \<and> events cu = []"
  by (simp add: construct_def load_engine_def new_engine_def calculate_model_parameters_def
      images_binding_def num_dets_binding_def validate_and_calculate_elements_def
      allocate_buffers_def get_num_inputs_def get_num_outputs_def
      get_input_shapes_def get_output_shapes_def idle_cuda_def)

text \<open>The same for every model: the binding loop never writes the two counts.\<close>

lemma process_bindings_counts:
  "process_bindings i bs st = Inr st' \<Longrightarrow>
     num_inputs st' = num_inputs st \<and> num_outputs st' = num_outputs st"
proof (induction bs arbitrary: i st)
  case Nil
  then show ?case by simp
next
  case (Cons b bs)
  then show ?case
    by (cases "binding_is_input b") (auto split: option.splits)
qed

lemma calculate_model_parameters_counts:
  assumes "calculate_model_parameters st = Inr st'"
  shows "get_num_inputs st' = 0 \<and> get_num_outputs st' = 0"
proof -
  obtain bs where bs: "engine st = Some bs"
    using assms by (cases "engine st") (simp_all add: calculate_model_parameters_def)
  define st2 where "st2 = st\<lparr>input_dims := [], output_dims := [],
      input_names := [], output_names := [],
      trt_input_element_counts := [], trt_output_element_counts := [],
      num_inputs := 0, num_outputs := 0\<rparr>"
  obtain st3 where st3: "process_bindings 0 bs st2 = Inr st3"
    using assms bs
    by (cases "process_bindings 0 bs st2") (simp_all add: calculate_model_parameters_def st2_def)
  have "num_inputs st3 = 0 \<and> num_outputs st3 = 0"
    using process_bindings_counts [OF st3] by (simp add: st2_def)
  moreover have "num_inputs st' = num_inputs st3 \<and> num_outputs st' = num_outputs st3"
    using assms bs st3
    by (auto simp add: calculate_model_parameters_def st2_def split: sum.splits if_splits)
  ultimately show ?thesis
    by (simp add: get_num_inputs_def get_num_outputs_def)
qed

text \<open>
  For every model the constructor accepts: the shapes are those of the bindings of each
  role, in binding order, the counts are 0 and no buffer is allocated.
\<close>

lemma process_bindings_shapes:
  "process_bindings i bs st = Inr st' \<Longrightarrow>
     input_shapes st' = input_shapes st @ map binding_dims (filter binding_is_input bs)
     \<and> output_shapes st' =
         output_shapes st @ map binding_dims (filter (\<lambda>b. \<not> binding_is_input b) bs)
     \<and> input_cuda_buffers st' = input_cuda_buffers st
     \<and> output_cuda_buffers st' = output_cuda_buffers st"
proof (induction bs arbitrary: i st)
  case Nil
  then show ?case by simp
next
  case (Cons b bs)
  then show ?case
    by (cases "binding_is_input b") (auto split: option.splits)
qed

lemma construct_every_model:
  assumes "construct (Some bs) n0 m0 cu = Inr (r, st, cu')"
  shows "get_num_inputs st = 0 \<and> get_num_outputs st = 0
     \<and> get_input_shapes st = map binding_dims (filter binding_is_input bs)
     \<and> get_output_shapes st = map binding_dims (filter (\<lambda>b. \<not> binding_is_input b) bs)
     \<and> r = Invalid_io_counts \<and> input_cuda_buffers st = [] \<and> output_cuda_buffers st = []
     \<and> cu' = cu"
proof -
  define st1 where "st1 = (new_engine n0 m0)\<lparr>engine := Some bs, context_ptr := True\<rparr>"
  obtain st2 where st2: "calculate_model_parameters st1 = Inr st2"
    and alloc: "allocate_buffers st2 cu = Inr (r, st, cu')"
    using assms
    by (cases "calculate_model_parameters st1")
       (simp_all add: construct_def load_engine_def st1_def)
  have counts: "num_inputs st2 = 0" "num_outputs st2 = 0"
    using calculate_model_parameters_counts [OF st2]
    by (simp_all add: get_num_inputs_def get_num_outputs_def)
  define st0 where "st0 = st1\<lparr>input_dims := [], output_dims := [],
      input_names := [], output_names := [],
      trt_input_element_counts := [], trt_output_element_counts := [],
      num_inputs := 0, num_outputs := 0\<rparr>"
  obtain st3 where st3: "process_bindings 0 bs st0 = Inr st3"
    using st2
    by (cases "process_bindings 0 bs st0")
       (simp_all add: calculate_model_parameters_def st0_def st1_def)
  have same: "input_shapes st2 = input_shapes st3 \<and> output_shapes st2 = output_shapes st3
      \<and> input_cuda_buffers st2 = input_cuda_buffers st3
      \<and> output_cuda_buffers st2 = output_cuda_buffers st3"
    using st2 st3
    by (auto simp add: calculate_model_parameters_def st0_def st1_def
        split: sum.splits if_splits)
  have st3_fields: "input_shapes st3 = map binding_dims (filter binding_is_input bs)"
    "output_shapes st3 = map binding_dims (filter (\<lambda>b. \<not> binding_is_input b) bs)"
    "input_cuda_buffers st3 = []" "output_cuda_buffers st3 = []"
    using process_bindings_shapes [OF st3] by (simp_all add: st0_def st1_def new_engine_def)
  have "r = Invalid_io_counts \<and> st = st2 \<and> cu' = cu"
    using alloc counts same st3_fields by (simp add: allocate_buffers_def)
  then show ?thesis
    using counts same st3_fields
    by (simp add: get_num_inputs_def get_num_outputs_def get_input_shapes_def
        get_output_shapes_def)
qed

subsection \<open>Device buffers: traces of the allocation loops\<close>

lemma allocated_append: "allocated (xs @ ys) = allocated xs @ allocated ys"
  by (induction xs rule: allocated.induct) simp_all

lemma freed_buffers_append: "freed_buffers (xs @ ys) = freed_buffers xs @ freed_buffers ys"
  by (induction xs rule: freed_buffers.induct) simp_all

lemma malloc_failed_append: "malloc_failed (xs @ ys) = (malloc_failed xs \<or> malloc_failed ys)"
  by (induction xs rule: malloc_failed.induct) simp_all

lemma allocated_frees: "allocated (map CudaFree ps) = []"
  by (induction ps) simp_all

lemma freed_buffers_frees: "freed_buffers (map CudaFree ps) = ps"
  by (induction ps) simp_all

lemma malloc_failed_frees: "malloc_failed (map CudaFree ps) = False"
  by (induction ps) simp_all

lemma allocated_not_null: "nullptr \<notin> set (allocated evs)"
  by (induction evs rule: allocated.induct) simp_all

lemma filter_allocated: "filter (\<lambda>b. b \<noteq> nullptr) (allocated evs) = allocated evs"
  using allocated_not_null [of evs] by (simp add: filter_id_conv) metis

lemma filter_allocated_padded:
  "filter (\<lambda>b. b \<noteq> nullptr) (allocated evs @ replicate k nullptr) = allocated evs"
  by (simp add: filter_allocated)

lemma free_loop_events:
  "free_loop bufs cu = cu\<lparr>events := events cu @ map CudaFree (filter (\<lambda>b. b \<noteq> nullptr) bufs)\<rparr>"
  by (induction bufs arbitrary: cu) (simp_all add: cudaFree_def)

lemma size_bytes_length:
  assumes "size_bytes c counts es = Inr szs"
  shows "length szs = nat c"
  using assms by (auto simp add: size_bytes_def split: if_splits)

text \<open>
  One allocation loop, started on null entries behind the \<open>i\<close> entries \<open>pre\<close>: the
  buffers it leaves are the addresses it was given, in order, then the null entries
  it did not reach; it frees nothing; it reports a failure exactly when one occurred.
\<close>

lemma allocate_loop_run:
  assumes "allocate_loop szs i (pre @ replicate (length szs) nullptr) cu = (res, bufs', cu')"
    and "length pre = i"
  shows "\<exists>evs. events cu' = events cu @ evs
           \<and> bufs' = pre @ allocated evs @ replicate (length szs - length (allocated evs)) nullptr
           \<and> freed_buffers evs = []
           \<and> malloc_failed evs = (res \<noteq> None)
           \<and> (res = None \<longrightarrow> length (allocated evs) = length szs)"
  using assms
proof (induction szs arbitrary: i pre cu)
  case Nil
  then show ?case by simp
next
  case (Cons sz szs)
  show ?case
  proof (cases "cudaMalloc cu sz")
    case (Pair outcome cu1)
    have ev1: "events cu1 = events cu @ [CudaMalloc sz outcome]"
      using Pair by (auto simp add: cudaMalloc_def split: list.splits)
    show ?thesis
    proof (cases outcome)
      case None
      then have "res = Some i" "bufs' = pre @ replicate (Suc (length szs)) nullptr" "cu' = cu1"
        using Cons.prems(1) Pair by simp_all
      then show ?thesis
        using ev1 None by (intro exI [of _ "[CudaMalloc sz None]"]) simp
    next
      case (Some a)
      have upd: "(pre @ replicate (length (sz # szs)) nullptr)[i := Addr a]
                  = (pre @ [Addr a]) @ replicate (length szs) nullptr"
        using Cons.prems(2) by (simp add: list_update_append)
      have "allocate_loop szs (Suc i) ((pre @ [Addr a]) @ replicate (length szs) nullptr) cu1
               = (res, bufs', cu')"
        using Cons.prems(1) Pair Some upd by simp
      from Cons.IH [OF this] Cons.prems(2)
      obtain evs where evs: "events cu' = events cu1 @ evs"
        "bufs' = (pre @ [Addr a]) @ allocated evs
                   @ replicate (length szs - length (allocated evs)) nullptr"
        "freed_buffers evs = []" "malloc_failed evs = (res \<noteq> None)"
        "res = None \<longrightarrow> length (allocated evs) = length szs"
        by auto
      show ?thesis
        using evs ev1 Some by (intro exI [of _ "CudaMalloc sz (Some a) # evs"]) simp
    qed
  qed
qed

text \<open>
  \<open>allocate_buffers\<close> past its two guards: either a \<^verbatim>\<open>cudaMalloc\<close> failed, and then
  the state is empty and exactly the addresses obtained were freed, or none failed, and
  then the state is complete and nothing was freed.
\<close>

lemma allocate_buffers_run:
  assumes "input_cuda_buffers st = []" and "output_cuda_buffers st = []"
    and "1 \<le> num_inputs st" and "1 \<le> num_outputs st"
    and "allocate_buffers st cu = Inr (r, st', cu')"
  shows "\<exists>evs. events cu' = events cu @ evs \<and>
     (if malloc_failed evs
      then r \<noteq> Successfully_allocated \<and> buffers_empty st' \<and> freed_buffers evs = allocated evs
      else r = Successfully_allocated \<and> buffers_complete st' \<and> freed_buffers evs = [])"
proof -
  obtain in_sizes where ins: "get_input_size_bytes st sizeof_float = Inr in_sizes"
    using assms
    by (cases "get_input_size_bytes st sizeof_float") (simp_all add: allocate_buffers_def)
  obtain out_sizes where outs: "get_output_size_bytes st sizeof_float = Inr out_sizes"
    using assms ins
    by (cases "get_output_size_bytes st sizeof_float") (simp_all add: allocate_buffers_def)
  define n where "n = nat (num_inputs st)"
  define m where "m = nat (num_outputs st)"
  have len_in: "length in_sizes = n"
    using ins by (simp add: get_input_size_bytes_def size_bytes_length n_def)
  have len_out: "length out_sizes = m"
    using outs by (simp add: get_output_size_bytes_def size_bytes_length m_def)
  obtain res1 bufs1 cu1 where
    loop1: "allocate_loop in_sizes 0 (replicate n nullptr) cu = (res1, bufs1, cu1)"
    by (cases "allocate_loop in_sizes 0 (replicate n nullptr) cu") auto
  from allocate_loop_run [of in_sizes 0 "[]" cu res1 bufs1 cu1] loop1 len_in
  obtain evs1 where evs1: "events cu1 = events cu @ evs1"
    "bufs1 = allocated evs1 @ replicate (n - length (allocated evs1)) nullptr"
    "freed_buffers evs1 = []" "malloc_failed evs1 = (res1 \<noteq> None)"
    "res1 = None \<longrightarrow> length (allocated evs1) = n"
    by auto
  show ?thesis
  proof (cases res1)
    case (Some i)
    have result: "allocate_buffers st cu =
        Inr (Input_allocation_failed i,
             st\<lparr>input_cuda_buffers := [], output_cuda_buffers := [], bindings := []\<rparr>,
             free_loop [] (free_loop bufs1 cu1))"
      using assms(1-4) ins outs loop1 Some
      by (simp add: allocate_buffers_def resize_def deallocate_buffers_def Let_def n_def)
    have ev: "events (free_loop [] (free_loop bufs1 cu1)) =
        events cu @ evs1 @ map CudaFree (allocated evs1)"
      unfolding free_loop_events evs1(2) filter_allocated_padded
      by (simp add: evs1(1))
    show ?thesis
      using assms(5) result ev evs1(3,4) Some
      by (intro exI [of _ "evs1 @ map CudaFree (allocated evs1)"])
         (auto simp add: malloc_failed_append freed_buffers_append allocated_append
            allocated_frees freed_buffers_frees buffers_empty_def)
  next
    case None
    have bufs1: "bufs1 = allocated evs1" "length bufs1 = n"
      using evs1(2,5) None by simp_all
    obtain res2 bufs2 cu2 where
      loop2: "allocate_loop out_sizes 0 (replicate m nullptr) cu1 = (res2, bufs2, cu2)"
      by (cases "allocate_loop out_sizes 0 (replicate m nullptr) cu1") auto
    from allocate_loop_run [of out_sizes 0 "[]" cu1 res2 bufs2 cu2] loop2 len_out
    obtain evs2 where evs2: "events cu2 = events cu1 @ evs2"
      "bufs2 = allocated evs2 @ replicate (m - length (allocated evs2)) nullptr"
      "freed_buffers evs2 = []" "malloc_failed evs2 = (res2 \<noteq> None)"
      "res2 = None \<longrightarrow> length (allocated evs2) = m"
      by auto
    show ?thesis
    proof (cases res2)
      case (Some j)
      have result: "allocate_buffers st cu =
          Inr (Output_allocation_failed j,
               st\<lparr>input_cuda_buffers := [], output_cuda_buffers := [], bindings := []\<rparr>,
               free_loop bufs2 (free_loop bufs1 cu2))"
        using assms(1-4) ins outs loop1 loop2 None Some
        by (simp add: allocate_buffers_def resize_def deallocate_buffers_def Let_def n_def m_def)
      have ev: "events (free_loop bufs2 (free_loop bufs1 cu2)) =
          events cu @ evs1 @ evs2 @ map CudaFree (allocated evs1) @ map CudaFree (allocated evs2)"
        unfolding free_loop_events evs2(2) bufs1(1) filter_allocated_padded filter_allocated
        by (simp add: evs1(1) evs2(1))
      show ?thesis
        using assms(5) result ev evs1(3,4) evs2(3,4) None Some
        by (intro exI [of _ "evs1 @ evs2 @ map CudaFree (allocated evs1)
                               @ map CudaFree (allocated evs2)"])
           (auto simp add: malloc_failed_append freed_buffers_append allocated_append
              allocated_frees freed_buffers_frees buffers_empty_def)
    next
      case None2: None
      have bufs2: "bufs2 = allocated evs2" "length bufs2 = m"
        using evs2(2,5) None2 by simp_all
      have result: "allocate_buffers st cu =
          Inr (Successfully_allocated,
               st\<lparr>input_cuda_buffers := bufs1, output_cuda_buffers := bufs2,
                  bindings := bufs1 @ bufs2\<rparr>, cu2)"
        using assms(1-4) ins outs loop1 loop2 None None2
        by (simp add: allocate_buffers_def resize_def Let_def n_def m_def)
      have complete: "buffers_complete
          (st\<lparr>input_cuda_buffers := bufs1, output_cuda_buffers := bufs2,
              bindings := bufs1 @ bufs2\<rparr>)"
        using assms(3,4) bufs1 bufs2 allocated_not_null
        by (simp add: buffers_complete_def n_def m_def)
      show ?thesis
        using assms(5) result complete evs1 evs2 None None2
        by (intro exI [of _ "evs1 @ evs2"])
           (auto simp add: malloc_failed_append freed_buffers_append)
    qed
  qed
qed

lemma new_events_same: "new_events cu cu = []"
  by (simp add: new_events_def)

lemma new_events_append: "events cu' = events cu @ evs \<Longrightarrow> new_events cu cu' = evs"
  by (simp add: new_events_def)

lemma buffers_complete_not_empty:
  "buffers_complete st \<Longrightarrow> input_cuda_buffers st \<noteq> []"
  by (auto simp add: buffers_complete_def)

lemma deallocate_buffers_empty: "buffers_empty (fst (deallocate_buffers st cu))"
  by (simp add: deallocate_buffers_def buffers_empty_def Let_def)

lemma small_allocation_fails:
  "allocate_buffers small_unallocated (idle_cuda [Some 100, None]) =
     Inr (Output_allocation_failed 0, small_unallocated,
          \<lparr>malloc_outcomes = [],
           events = [CudaMalloc 16 (Some 100), CudaMalloc 4 None, CudaFree (Addr 100)]\<rparr>)"
  by (simp add: allocate_buffers_def small_unallocated_def small_session_def idle_cuda_def
      get_input_size_bytes_def get_output_size_bytes_def size_bytes_def sizeof_float_def
      resize_def cudaMalloc_def cudaFree_def deallocate_buffers_def)

lemma small_allocation_succeeds:
  "allocate_buffers small_unallocated (idle_cuda [Some 100, Some 200]) =
     Inr (Successfully_allocated, small_session,
          \<lparr>malloc_outcomes = [],
           events = [CudaMalloc 16 (Some 100), CudaMalloc 4 (Some 200)]\<rparr>)"
  by (simp add: allocate_buffers_def small_unallocated_def small_session_def idle_cuda_def
      get_input_size_bytes_def get_output_size_bytes_def size_bytes_def sizeof_float_def
      resize_def cudaMalloc_def)

subsection \<open>Device buffers: all or nothing\<close>

text \<open>
  Claim C5. The buffer set is always empty or complete. For every call of
  \<open>allocate_buffers\<close> that returns: the trace only grows; if a \<^verbatim>\<open>cudaMalloc\<close> of the
  call failed, the call reports a failure, the input buffer list, the output buffer list
  and the binding table are all empty, and the buffers freed during the call are exactly
  the buffers allocated during it, each once and in the same order; a buffer set that
  was empty or complete before the call is empty or complete after it; and
  \<open>deallocate_buffers\<close> leaves it empty.
\<close>

theorem allocate_buffers_all_or_nothing:
  assumes "allocate_buffers st cu = Inr (r, st', cu')"
  shows "events cu' = events cu @ new_events cu cu'
     \<and> (malloc_failed (new_events cu cu') \<longrightarrow>
          r \<noteq> Successfully_allocated
          \<and> input_cuda_buffers st' = [] \<and> output_cuda_buffers st' = [] \<and> bindings st' = []
          \<and> freed_buffers (new_events cu cu') = allocated (new_events cu cu'))
     \<and> (buffers_empty st \<or> buffers_complete st \<longrightarrow> buffers_empty st' \<or> buffers_complete st')
     \<and> buffers_empty (fst (deallocate_buffers st' cu'))"
proof (cases "input_cuda_buffers st = [] \<and> output_cuda_buffers st = []
               \<and> 1 \<le> num_inputs st \<and> 1 \<le> num_outputs st")
  case True
  with allocate_buffers_run [of st cu r st' cu'] assms
  obtain evs where evs: "events cu' = events cu @ evs"
    "if malloc_failed evs
      then r \<noteq> Successfully_allocated \<and> buffers_empty st' \<and> freed_buffers evs = allocated evs
      else r = Successfully_allocated \<and> buffers_complete st' \<and> freed_buffers evs = []"
    by auto
  have "new_events cu cu' = evs"
    using evs(1) by (rule new_events_append)
  then show ?thesis
    using evs deallocate_buffers_empty [of st' cu']
    by (auto simp add: buffers_empty_def split: if_splits)
next
  case False
  then have "st' = st \<and> cu' = cu"
    using assms by (auto simp add: allocate_buffers_def split: if_splits)
  then show ?thesis
    using deallocate_buffers_empty [of st cu] by (simp add: new_events_same)
qed

theorem allocate_buffers_all_or_nothing_witness:
  "allocate_buffers small_unallocated (idle_cuda [Some 100, None]) =
     Inr (Output_allocation_failed 0, small_unallocated,
          \<lparr>malloc_outcomes = [],
           events = [CudaMalloc 16 (Some 100), CudaMalloc 4 None, CudaFree (Addr 100)]\<rparr>)
   \<and> malloc_failed [CudaMalloc 16 (Some 100), CudaMalloc 4 None, CudaFree (Addr 100)]
   \<and> buffers_empty small_unallocated
   \<and> freed_buffers [CudaMalloc 16 (Some 100), CudaMalloc 4 None, CudaFree (Addr 100)] = [Addr 100]
   \<and> allocated [CudaMalloc 16 (Some 100), CudaMalloc 4 None, CudaFree (Addr 100)] = [Addr 100]"
  using allocate_buffers_all_or_nothing [OF small_allocation_fails] small_allocation_fails
  by (simp add: new_events_def idle_cuda_def buffers_empty_def small_unallocated_def)

text \<open>
  Claim C6. A call of \<open>allocate_buffers\<close> while buffers are held (in particular a
  second call after a successful first one, with no \<open>deallocate_buffers\<close> between)
  is reported as an error, the line "CUDA buffers already allocated", and leaves the
  engine, with its buffer lists and binding table, and the runtime exactly as they were.
\<close>

theorem allocate_buffers_twice_rejected:
  "(input_cuda_buffers st \<noteq> [] \<or> output_cuda_buffers st \<noteq> [] \<longrightarrow>
      allocate_buffers st cu = Inr (Already_allocated, st, cu))
   \<and> (allocate_buffers st cu = Inr (Successfully_allocated, st1, cu1) \<longrightarrow>
      allocate_buffers st1 cu1 = Inr (Already_allocated, st1, cu1))"
proof (intro conjI impI)
  assume "input_cuda_buffers st \<noteq> [] \<or> output_cuda_buffers st \<noteq> []"
  then show "allocate_buffers st cu = Inr (Already_allocated, st, cu)"
    by (auto simp add: allocate_buffers_def)
next
  assume first: "allocate_buffers st cu = Inr (Successfully_allocated, st1, cu1)"
  then have guards: "input_cuda_buffers st = []" "output_cuda_buffers st = []"
    "1 \<le> num_inputs st" "1 \<le> num_outputs st"
    by (auto simp add: allocate_buffers_def split: if_splits)
  from allocate_buffers_run [OF guards first] have "buffers_complete st1"
    by (auto split: if_splits)
  then have "input_cuda_buffers st1 \<noteq> []"
    by (rule buffers_complete_not_empty)
  then show "allocate_buffers st1 cu1 = Inr (Already_allocated, st1, cu1)"
    by (simp add: allocate_buffers_def)
qed

theorem allocate_buffers_twice_rejected_witness:
  "allocate_buffers small_unallocated (idle_cuda [Some 100, Some 200]) =
     Inr (Successfully_allocated, small_session,
          \<lparr>malloc_outcomes = [],
           events = [CudaMalloc 16 (Some 100), CudaMalloc 4 (Some 200)]\<rparr>)
   \<and> input_cuda_buffers small_session = [Addr 100]
   \<and> allocate_buffers small_session
         \<lparr>malloc_outcomes = [], events = [CudaMalloc 16 (Some 100), CudaMalloc 4 (Some 200)]\<rparr> =
       Inr (Already_allocated, small_session,
         \<lparr>malloc_outcomes = [], events = [CudaMalloc 16 (Some 100), CudaMalloc 4 (Some 200)]\<rparr>)"
  using allocate_buffers_twice_rejected [of small_unallocated "idle_cuda [Some 100, Some 200]"
      small_session
      "\<lparr>malloc_outcomes = [], events = [CudaMalloc 16 (Some 100), CudaMalloc 4 (Some 200)]\<rparr>"]
    small_allocation_succeeds
  by (simp add: small_session_def)

subsection \<open>Inference\<close>

text \<open>
  Claim C2 asks that \<open>infer_b\<close> compare the caller-declared byte size at every index
  with the engine's size for that binding, and return false with no copy and no execution
  on any mismatch. Evaluated on a session whose input is 16 bytes, with a declared input
  size of 17 and \<open>input_size\<close>, \<open>output_size\<close> equal to the engine's sizes:
  \<open>infer_b\<close> returns true after a host-to-device copy of 17 bytes, the execution and
  the copy back. \<open>validate_buffers\<close>, which makes the comparison index by index and
  rejects these arguments, is not called.
\<close>

theorem infer_b_ignores_declared_sizes:
  "get_input_size_bytes small_session sizeof_float = Inr [16]
   \<and> get_output_size_bytes small_session sizeof_float = Inr [4]
   \<and> infer_b small_session (idle_cuda []) [16] [4] [Addr 1] [17] [Addr 2] [4] =
       Inr (True,
            \<lparr>malloc_outcomes = [],
             events = [MemcpyHostToDevice (Addr 100) (Addr 1) 17,
                       ExecuteV2 [Addr 100, Addr 200],
                       MemcpyDeviceToHost (Addr 2) (Addr 200) 4]\<rparr>)
   \<and> validate_buffers small_session [Addr 1] [17] [Addr 2] [4] = Inr False"
  by (simp add: infer_b_def validate_buffers_def small_session_def
      get_input_size_bytes_def get_output_size_bytes_def size_bytes_def sizeof_float_def
      idle_cuda_def cudaMemcpy_h2d_def cudaMemcpy_d2h_def executeV2_def)

text \<open>The flag never depends on the declared sizes.\<close>

lemma infer_b_flag_ignores_sizes:
  assumes "infer_b st cu input_size output_size input_buf size_in_param
             output_buf size_out_param = Inr (ok, cu1)"
    and "infer_b st cu input_size output_size input_buf size_in_param'
           output_buf size_out_param' = Inr (ok', cu2)"
  shows "ok' = ok"
  using assms
  by (auto simp add: infer_b_def split: sum.splits if_splits)

subsection \<open>The detection decoder\<close>

text \<open>The threshold constant is an \<^verbatim>\<open>int\<close>: the fraction of 0.25 is lost.\<close>

lemma threshold_value: "CONFIDENCE_SCORE_THRESHOLD = 0"
proof -
  have "\<lfloor>25 / 100 :: rat\<rfloor> = 0"
    by (rule floor_unique) simp_all
  then show ?thesis
    by (simp add: CONFIDENCE_SCORE_THRESHOLD_def float_to_int_def)
qed

lemma upt_3: "[0..<3] = [0, 1, 2]"
  by (simp add: upt_rec)

text \<open>
  Where every index can be read, the loop appends the specification's record of each
  index whose score is not below the threshold, in the order of the indices.
\<close>

lemma decode_loop_eq:
  assumes "\<And>i. i \<in> set idxs \<Longrightarrow>
             i * 4 + 3 < length (out_bboxes outs) \<and> i < length (out_scores outs)
             \<and> i < length (out_labels outs)"
  shows "decode_loop fsub outs idxs acc =
     Inr (acc @ map (spec_detection_record fsub outs)
        (filter (\<lambda>i. \<not> out_scores outs ! i < of_int CONFIDENCE_SCORE_THRESHOLD) idxs))"
  using assms
proof (induction idxs arbitrary: acc)
  case Nil
  then show ?case by simp
next
  case (Cons i rest)
  have inb: "i * 4 + 3 < length (out_bboxes outs) \<and> i < length (out_scores outs)
               \<and> i < length (out_labels outs)"
    using Cons.prems by simp
  have rest: "\<And>acc'. decode_loop fsub outs rest acc' =
     Inr (acc' @ map (spec_detection_record fsub outs)
        (filter (\<lambda>i. \<not> out_scores outs ! i < of_int CONFIDENCE_SCORE_THRESHOLD) rest))"
    using Cons.IH Cons.prems by simp
  show ?case
    using inb by (simp add: rest spec_detection_record_def Let_def mult.commute)
qed

lemma identify_objects_decodes:
  assumes "run_inference ys cu input_size output_size input_img = Inr (Some cu')"
  shows "identify_objects fsub ys cu input_size output_size outs input_img dets rb =
     (case post_process fsub ys outs dets rb of
        Inl e \<Rightarrow> Inl e
      | Inr (n, dets', buf) \<Rightarrow> Inr (n, dets', buf, cu'))"
  using assms by (simp add: identify_objects_def)

text \<open>The detector session gets through its guards and the inference.\<close>

lemma detector_run_inference:
  "run_inference detector_session (idle_cuda []) [8] [4, 1600, 400, 400] [0, 0] =
     Inr (Some \<lparr>malloc_outcomes = [], events = detector_inference_events\<rparr>)"
  by (simp add: run_inference_def detector_session_def detector_engine_def infer_b_def
      get_input_size_bytes_def get_output_size_bytes_def size_bytes_def sizeof_float_def
      idle_cuda_def cudaMemcpy_h2d_def cudaMemcpy_d2h_def executeV2_def
      get_num_inputs_def get_num_outputs_def MODEL_NUM_INPUTS_def MODEL_NUM_OUTPUTS_def
      detector_inference_events_def)

lemma detector_output_data: "length (output_data detector_session) = 4"
  by (simp add: detector_session_def)

text \<open>
  Claim C3 asks that a score strictly below 0.25 produce no record, and that the count 3
  with scores 0.9, 0.1, 0.3 produce exactly the two records of indices 0 and 2. Evaluated
  on these scores: three records are appended, the one of index 1, with score 0.1, among
  them. The test is \<open>score < CONFIDENCE_SCORE_THRESHOLD\<close> and the constant is 0.
\<close>

theorem decoder_keeps_low_scores:
  "identify_objects (-) detector_session (idle_cuda []) [8] [4, 1600, 400, 400]
     (detector_outputs 3 [10, 20, 30, 40, 50, 60, 70, 80, 90, 100, 110, 120]
        [9 / 10, 1 / 10, 3 / 10] [7, 8, 9])
     [0, 0] [] ([] :: detected_object_info list) =
   Inr (0,
        [\<lparr>rect = \<lparr>box_x = 10, box_y = 20, box_width = 20, box_height = 20\<rparr>,
          class_id = 7, confidence = 9 / 10\<rparr>,
         \<lparr>rect = \<lparr>box_x = 50, box_y = 60, box_width = 20, box_height = 20\<rparr>,
          class_id = 8, confidence = 1 / 10\<rparr>,
         \<lparr>rect = \<lparr>box_x = 90, box_y = 100, box_width = 20, box_height = 20\<rparr>,
          class_id = 9, confidence = 3 / 10\<rparr>],
        [], \<lparr>malloc_outcomes = [], events = detector_inference_events\<rparr>)"
  by (simp add: identify_objects_def detector_run_inference post_process_def
      detector_outputs_def threshold_value upt_3 OUTPUT_INDEX_LABELS_def detector_output_data)

text \<open>
  Claim C7. Once the inference has succeeded and the four output buffers exist, a
  detection count below 0 or above 100 makes \<open>identify_objects\<close> return \<open>-1\<close> with
  no record appended, and a count of exactly 0 makes it return 0, not an error, again
  with no record appended.
\<close>

theorem identify_objects_count_gate:
  assumes "run_inference ys cu input_size output_size input_img = Inr (Some cu')"
    and "OUTPUT_INDEX_LABELS < length (output_data ys)"
    and "out_num_dets outs = n # others"
  shows "(n < 0 \<or> 100 < n \<longrightarrow>
           identify_objects fsub ys cu input_size output_size outs input_img dets rb =
             Inr (- 1, dets, [], cu'))
       \<and> (n = 0 \<longrightarrow>
           identify_objects fsub ys cu input_size output_size outs input_img dets rb =
             Inr (0, dets, [], cu'))"
  using assms(2,3) by (auto simp add: identify_objects_decodes [OF assms(1)] post_process_def)

theorem identify_objects_count_gate_witness:
  "run_inference detector_session (idle_cuda []) [8] [4, 1600, 400, 400] [0, 0] =
     Inr (Some \<lparr>malloc_outcomes = [], events = detector_inference_events\<rparr>)
   \<and> identify_objects (-) detector_session (idle_cuda []) [8] [4, 1600, 400, 400]
       (detector_outputs 101 [] [] []) [0, 0] [] ([] :: detected_object_info list) =
     Inr (- 1, [], [], \<lparr>malloc_outcomes = [], events = detector_inference_events\<rparr>)
   \<and> identify_objects (-) detector_session (idle_cuda []) [8] [4, 1600, 400, 400]
       (detector_outputs (- 1) [] [] []) [0, 0] [] ([] :: detected_object_info list) =
     Inr (- 1, [], [], \<lparr>malloc_outcomes = [], events = detector_inference_events\<rparr>)
   \<and> identify_objects (-) detector_session (idle_cuda []) [8] [4, 1600, 400, 400]
       (detector_outputs 0 [] [] []) [0, 0] [] ([] :: detected_object_info list) =
     Inr (0, [], [], \<lparr>malloc_outcomes = [], events = detector_inference_events\<rparr>)"
proof -
  have len: "OUTPUT_INDEX_LABELS < length (output_data detector_session)"
    by (simp add: OUTPUT_INDEX_LABELS_def detector_output_data)
  have count: "out_num_dets (detector_outputs k [] [] []) = k # []" for k
    by (simp add: detector_outputs_def)
  show ?thesis
    using identify_objects_count_gate [OF detector_run_inference len count [of 101],
        where fsub = "(-)" and dets = "[]" and rb = "[] :: detected_object_info list"]
      identify_objects_count_gate [OF detector_run_inference len count [of "- 1"],
        where fsub = "(-)" and dets = "[]" and rb = "[] :: detected_object_info list"]
      identify_objects_count_gate [OF detector_run_inference len count [of 0],
        where fsub = "(-)" and dets = "[]" and rb = "[] :: detected_object_info list"]
      detector_run_inference
    by simp
qed

text \<open>
  Claim C8. Once the inference has succeeded, with a count \<open>n\<close> in [0,100] and tensors
  holding at least \<open>n\<close> detections, \<open>identify_objects\<close> leaves in
  \<open>results_detections\<close> what it held, followed by one record for each detection that
  passes the filter (its score is not below the threshold constant), in the order of the
  detection indices; the record has x = x1, y = y1, width = x2 - x1, height = y2 - y1,
  the detection's score as confidence and its label as class id.
\<close>

theorem identify_objects_records:
  assumes "run_inference ys cu input_size output_size input_img = Inr (Some cu')"
    and "OUTPUT_INDEX_LABELS < length (output_data ys)"
    and "out_num_dets outs = n # others"
    and "0 \<le> n" and "n \<le> 100"
    and "4 * nat n \<le> length (out_bboxes outs)"
    and "nat n \<le> length (out_scores outs)"
    and "nat n \<le> length (out_labels outs)"
  shows "\<exists>r buf.
     identify_objects fsub ys cu input_size output_size outs input_img dets rb =
       Inr (r,
            dets @ map (spec_detection_record fsub outs)
              (filter (\<lambda>i. \<not> out_scores outs ! i < of_int CONFIDENCE_SCORE_THRESHOLD)
                 [0..<nat n]),
            buf, cu')"
proof -
  have "\<And>i. i \<in> set [0..<nat n] \<Longrightarrow>
          i * 4 + 3 < length (out_bboxes outs) \<and> i < length (out_scores outs)
          \<and> i < length (out_labels outs)"
    using assms(6-8) by auto
  then have "decode_loop fsub outs [0..<nat n] dets =
      Inr (dets @ map (spec_detection_record fsub outs)
        (filter (\<lambda>i. \<not> out_scores outs ! i < of_int CONFIDENCE_SCORE_THRESHOLD) [0..<nat n]))"
    by (rule decode_loop_eq)
  then show ?thesis
    using assms(2-5) by (simp add: identify_objects_decodes [OF assms(1)] post_process_def)
qed

theorem identify_objects_records_witness:
  "run_inference detector_session (idle_cuda []) [8] [4, 1600, 400, 400] [0, 0] =
     Inr (Some \<lparr>malloc_outcomes = [], events = detector_inference_events\<rparr>)
   \<and> (\<exists>r buf.
        identify_objects (-) detector_session (idle_cuda []) [8] [4, 1600, 400, 400]
          (detector_outputs 3 [10, 20, 30, 40, 50, 60, 70, 80, 90, 100, 110, 120]
             [9 / 10, - 1 / 2, 3 / 10] [7, 8, 9])
          [0, 0] [] ([] :: detected_object_info list) =
        Inr (r,
             [\<lparr>rect = \<lparr>box_x = 10, box_y = 20, box_width = 20, box_height = 20\<rparr>,
               class_id = 7, confidence = 9 / 10\<rparr>,
              \<lparr>rect = \<lparr>box_x = 90, box_y = 100, box_width = 20, box_height = 20\<rparr>,
               class_id = 9, confidence = 3 / 10\<rparr>],
             buf, \<lparr>malloc_outcomes = [], events = detector_inference_events\<rparr>))"
proof -
  define outs where "outs =
    detector_outputs 3 [10, 20, 30, 40, 50, 60, 70, 80, 90, 100, 110, 120]
      [9 / 10, - 1 / 2, 3 / 10] [7, 8, 9]"
  have len: "OUTPUT_INDEX_LABELS < length (output_data detector_session)"
    by (simp add: OUTPUT_INDEX_LABELS_def detector_output_data)
  have count: "out_num_dets outs = 3 # []"
    by (simp add: outs_def detector_outputs_def)
  have range: "(0::int) \<le> 3" "(3::int) \<le> 100"
    by simp_all
  have sizes: "4 * nat 3 \<le> length (out_bboxes outs)" "nat 3 \<le> length (out_scores outs)"
    "nat 3 \<le> length (out_labels outs)"
    by (simp_all add: outs_def detector_outputs_def)
  have records: "map (spec_detection_record (-) outs)
      (filter (\<lambda>i. \<not> out_scores outs ! i < of_int CONFIDENCE_SCORE_THRESHOLD) [0..<nat 3]) =
      [\<lparr>rect = \<lparr>box_x = 10, box_y = 20, box_width = 20, box_height = 20\<rparr>,
        class_id = 7, confidence = 9 / 10\<rparr>,
       \<lparr>rect = \<lparr>box_x = 90, box_y = 100, box_width = 20, box_height = 20\<rparr>,
        class_id = 9, confidence = 3 / 10\<rparr>]"
    by (simp add: upt_3 threshold_value outs_def detector_outputs_def spec_detection_record_def)
  show ?thesis
    using identify_objects_records [OF detector_run_inference len count range sizes,
        where fsub = "(-)" and dets = "[]" and rb = "[] :: detected_object_info list"]
      detector_run_inference
    unfolding records
    by (simp add: outs_def)
qed

text \<open>
  Claim C10 asks that a non-negative value returned by \<open>identify_objects\<close> be the
  number of records it appended. Evaluated on one detection of score 0.5: one record is
  appended to \<open>results_detections\<close> and the value returned is 0, the size of
  \<open>results_buffer\<close>, which was cleared and is never written.
\<close>

theorem identify_objects_returns_zero:
  "identify_objects (-) detector_session (idle_cuda []) [8] [4, 1600, 400, 400]
     (detector_outputs 1 [10, 20, 30, 40] [1 / 2] [7])
     [0, 0] [] ([] :: detected_object_info list) =
   Inr (0,
        [\<lparr>rect = \<lparr>box_x = 10, box_y = 20, box_width = 20, box_height = 20\<rparr>,
          class_id = 7, confidence = 1 / 2\<rparr>],
        [], \<lparr>malloc_outcomes = [], events = detector_inference_events\<rparr>)"
  by (simp add: identify_objects_def detector_run_inference post_process_def
      detector_outputs_def threshold_value OUTPUT_INDEX_LABELS_def detector_output_data)

text \<open>The value returned is never positive.\<close>

lemma identify_objects_return_values:
  assumes "identify_objects fsub ys cu input_size output_size outs input_img dets rb =
     Inr (r, dets', buf, cu')"
  shows "r = 0 \<or> r = - 1"
  using assms
  by (auto simp add: identify_objects_def post_process_def
      split: sum.splits option.splits list.splits if_splits)

subsection \<open>Teardown\<close>

lemma input_indices: "[0..<nat MODEL_NUM_INPUTS] = [0]"
  by (simp add: MODEL_NUM_INPUTS_def)

lemma output_indices: "[0..<nat MODEL_NUM_OUTPUTS] = [0, 1, 2, 3]"
  by (simp add: MODEL_NUM_OUTPUTS_def upt_rec)

text \<open>
  Claim C4 asks that a second \<open>unload_model\<close>, right after a first successful one,
  change nothing and make no access outside the cleared vectors. Evaluated on the
  detector session: the first call frees the five device buffers and the five host
  buffers and leaves the module unloaded; the second call, on that state, reads
  \<open>input_data[0]\<close> of the empty vector.
\<close>

theorem unload_model_twice_out_of_bounds:
  "unload_model detector_session (idle_cuda []) [] =
     Inr (unloaded,
          \<lparr>malloc_outcomes = [],
           events = [CudaFree (Addr 100), CudaFree (Addr 200), CudaFree (Addr 201),
                     CudaFree (Addr 202), CudaFree (Addr 203)]\<rparr>,
          [Addr 10, Addr 20, Addr 21, Addr 22, Addr 23])
   \<and> unload_model unloaded
       \<lparr>malloc_outcomes = [],
        events = [CudaFree (Addr 100), CudaFree (Addr 200), CudaFree (Addr 201),
                  CudaFree (Addr 202), CudaFree (Addr 203)]\<rparr>
       [Addr 10, Addr 20, Addr 21, Addr 22, Addr 23] = Inl Out_of_bounds"
  by (simp add: unload_model_def input_indices output_indices detector_session_def
      detector_engine_def unloaded_def destruct_def deallocate_buffers_def cudaFree_def
      idle_cuda_def)

text \<open>After any call that returns, the next call reads outside the input vector.\<close>

lemma unload_model_leaves_nothing:
  assumes "unload_model ys cu freed = Inr (ys', cu', freed')"
  shows "unload_model ys' cu'' freed'' = Inl Out_of_bounds"
proof -
  have "input_data ys' = []"
    using assms by (auto simp add: unload_model_def Let_def split: sum.splits)
  then show ?thesis
    by (simp add: unload_model_def input_indices)
qed

end
